theory Spec2Isabelle
  imports Complex_Main
begin

section \<open>Data of the PDF pane\<close>

text \<open>
  The component under study is \<open>PdfPane\<close> (\<open>src/components/PdfPane.jsx\<close>; a second
  revision of the same component, with an \<open>error\<close> and a \<open>loading\<close> state, is carried
  in \<open>Sidebar.jsx\<close>). JavaScript numbers are modelled as exact reals: rounding of
  IEEE doubles, \<open>NaN\<close> and infinities are outside the model.

  A chunk is the object handed over by the chunk list:
  \<open>{chunk_id, page, bbox_normalized: [x0, y0, x1, y1]}\<close>.
\<close>

record chunk =
  chunk_id :: string
  page :: nat
  bbox_normalized :: "real \<times> real \<times> real \<times> real"

text \<open>The part of a \<open>DOMRect\<close> that the code reads.\<close>

record domRect =
  rect_left :: real
  rect_top :: real
  rect_width :: real
  rect_height :: real

text \<open>DOM elements are handles; their geometry is never stored, it is asked of the
  layout each time (\<open>getBoundingClientRect()\<close>, \<open>offsetTop\<close>, \<open>clientHeight\<close>).\<close>

type_synonym element = nat

record layout =
  boundingClientRect :: "element \<Rightarrow> domRect"
  offsetTop :: "element \<Rightarrow> real"
  clientHeight :: "element \<Rightarrow> real"

text \<open>An entry \<open>{pageNumber: i, el: wrapper}\<close> of \<open>pageViews\<close>.\<close>

record pageView =
  pageNumber :: nat
  el :: element

text \<open>An entry \<open>{id, left, top, width, height, page}\<close> of \<open>highlights\<close>.\<close>

record highlight =
  h_id :: string
  h_left :: real
  h_top :: real
  h_width :: real
  h_height :: real
  h_page :: nat

text \<open>
  What a JavaScript computation can throw here: a \<open>TypeError\<close> from reading a property
  of \<open>null\<close>, or the rejection of an awaited promise, given by its \<open>String(err)\<close>.
\<close>

datatype error = TypeError | Rejected string

section \<open>The coordinate mapper\<close>

text \<open>
  \<open>computeRectsFromChunk\<close> closes over \<open>pageViews\<close> (a dependency of \<open>useCallback\<close>) and
  reads \<open>containerRef.current\<close>, which is \<open>null\<close> while the container is not mounted:
  \<open>containerRef.current.getBoundingClientRect()\<close> then throws.
\<close>

definition computeRectsFromChunk ::
  "pageView list \<Rightarrow> element option \<Rightarrow> layout \<Rightarrow> chunk option \<Rightarrow> error + highlight list" where
  "computeRectsFromChunk pageViews containerRef lay chunk =
     (case chunk of
        None \<Rightarrow> Inr []
      | Some c \<Rightarrow>
          if length pageViews = 0 then Inr []
          else (case find (\<lambda>v. pageNumber v = page c) pageViews of
                  None \<Rightarrow> Inr []
                | Some view \<Rightarrow>
                    (case containerRef of
                       None \<Rightarrow> Inl TypeError
                     | Some container \<Rightarrow>
                         (let pageEl = el view;
                              containerRect = boundingClientRect lay container;
                              pageRect = boundingClientRect lay pageEl;
                              (nx0, ny0, nx1, ny1) = bbox_normalized c;
                              left = rect_left pageRect - rect_left containerRect
                                       + nx0 * rect_width pageRect;
                              top = rect_top pageRect - rect_top containerRect
                                       + ny0 * rect_height pageRect;
                              width = max 2 ((nx1 - nx0) * rect_width pageRect);
                              height = max 2 ((ny1 - ny0) * rect_height pageRect)
                          in Inr [\<lparr>h_id = chunk_id c, h_left = left, h_top = top,
                                   h_width = width, h_height = height,
                                   h_page = page c\<rparr>]))))"

section \<open>The component state\<close>

text \<open>
  The two revisions of the component differ in the load effect only: the one in
  \<open>PdfPane.jsx\<close> has no \<open>error\<close>/\<open>loading\<close> state and no \<open>HEAD\<close> request, the one
  carried in \<open>Sidebar.jsx\<close> has both.
\<close>

datatype revision = PdfPane_jsx | Sidebar_jsx

text \<open>
  One run of the load effect: the \<open>async\<close> function with the \<open>fileUrl\<close> of its render
  and its \<open>cancelled\<close> variable.
  The phase is the \<open>await\<close> at which the function is suspended: the \<open>HEAD\<close> request,
  \<open>loadingTask.promise\<close>, or page \<open>i\<close> of \<open>numPages\<close> inside the loop (\<open>getPage\<close> and
  \<open>render\<close>), with the container captured before the loop and the \<open>views\<close> pushed so far.
\<close>

datatype phase =
    AwaitHead
  | AwaitDocument
  | AwaitPage element nat nat "pageView list"
  | Finished

record load =
  loadUrl :: string
  cancelled :: bool
  phase :: phase

text \<open>
  Props (\<open>fileUrl\<close>, \<open>selectedChunk\<close>, whether \<open>onReady\<close> was passed), refs
  (\<open>containerRef\<close>, \<open>rafPending\<close>, \<open>latestSelected\<close>), React state (\<open>pageViews\<close>,
  \<open>highlights\<close>, \<open>error\<close>, \<open>loading\<close>), the DOM children of the container, and the
  work handed to the browser: callbacks given to \<open>requestAnimationFrame\<close> and to
  \<open>setTimeout\<close>, each standing for the \<open>pageViews\<close> its closure holds, and the load
  runs in flight. The last seven fields record what the component did: every
  \<open>setHighlights\<close> call with the selection the callback had read, the number of
  \<open>computeRectsFromChunk\<close> calls, every \<open>scrollTo\<close> target, every \<open>onReady\<close> call,
  every error that the \<open>catch\<close> block of the load effect passed to \<open>console.error\<close>,
  every message that the not-ok \<open>HEAD\<close> branch passed to \<open>console.error\<close>, and
  every exception nobody caught.
\<close>

record pane =
  fileUrl :: string
  selectedChunk :: "chunk option"
  onReady :: bool
  containerRef :: "element option"
  containerChildren :: "element list"
  nextEl :: element
  pageViews :: "pageView list"
  highlights :: "highlight list"
  error :: "string option"
  loading :: bool
  rafPending :: bool
  latestSelected :: "chunk option"
  mounted :: bool
  rafQueue :: "pageView list list"
  timers :: "pageView list list"
  loads :: "load list"
  published :: "(chunk option \<times> highlight list) list"
  mapperCalls :: nat
  scrolls :: "real list"
  onReadyCalls :: "nat list"
  consoleErrors :: "error list"
  consoleMessages :: "string list"
  uncaught :: "error list"

text \<open>React drops a state update of a component that is no longer mounted.\<close>

definition setPageViews :: "pageView list \<Rightarrow> pane \<Rightarrow> pane" where
  "setPageViews views s = (if mounted s then s\<lparr>pageViews := views\<rparr> else s)"

definition setError :: "string option \<Rightarrow> pane \<Rightarrow> pane" where
  "setError e s = (if mounted s then s\<lparr>error := e\<rparr> else s)"

definition setLoading :: "bool \<Rightarrow> pane \<Rightarrow> pane" where
  "setLoading b s = (if mounted s then s\<lparr>loading := b\<rparr> else s)"

definition setHighlights :: "chunk option \<Rightarrow> highlight list \<Rightarrow> pane \<Rightarrow> pane" where
  "setHighlights sel rects s =
     (let s1 = s\<lparr>published := published s @ [(sel, rects)]\<rparr>
      in if mounted s1 then s1\<lparr>highlights := rects\<rparr> else s1)"

section \<open>The highlight synchronizer\<close>

text \<open>\<open>scheduleRecompute\<close> of the render whose \<open>pageViews\<close> is \<open>pvs\<close>.\<close>

definition scheduleRecompute :: "pageView list \<Rightarrow> pane \<Rightarrow> pane" where
  "scheduleRecompute pvs s =
     (if rafPending s then s
      else s\<lparr>rafPending := True, rafQueue := rafQueue s @ [pvs]\<rparr>)"

text \<open>The callback given to \<open>requestAnimationFrame\<close>, run with the layout of that frame.\<close>

definition rafCallback :: "pageView list \<Rightarrow> layout \<Rightarrow> pane \<Rightarrow> pane" where
  "rafCallback pvs lay s =
     (let s1 = s\<lparr>rafPending := False\<rparr>;
          chunk = latestSelected s1
      in case chunk of
           None \<Rightarrow> setHighlights None [] s1
         | Some c \<Rightarrow>
             (let s2 = s1\<lparr>mapperCalls := mapperCalls s1 + 1\<rparr>
              in case computeRectsFromChunk pvs (containerRef s2) lay chunk of
                   Inl e \<Rightarrow> s2\<lparr>uncaught := uncaught s2 @ [e]\<rparr>
                 | Inr rects \<Rightarrow>
                     (let s3 = setHighlights chunk rects s2
                      in case rects of
                           [] \<Rightarrow> s3
                         | r # _ \<Rightarrow>
                             (case find (\<lambda>pv. pageNumber pv = h_page r) pvs of
                                None \<Rightarrow> s3
                              | Some v \<Rightarrow>
                                  (case containerRef s3 of
                                     None \<Rightarrow> s3
                                   | Some container \<Rightarrow>
                                       (let pageEl = el v;
                                            pageTop = offsetTop lay pageEl;
                                            centerScroll =
                                              max 0 (pageTop - clientHeight lay container / 2
                                                       + clientHeight lay pageEl / 2)
                                        in s3\<lparr>scrolls := scrolls s3 @ [centerScroll]\<rparr>))))))"

text \<open>A display frame runs the callbacks that were queued before it.\<close>

definition frame :: "layout \<Rightarrow> pane \<Rightarrow> pane" where
  "frame lay s = foldl (\<lambda>t pvs. rafCallback pvs lay t) (s\<lparr>rafQueue := []\<rparr>) (rafQueue s)"

text \<open>The effect on \<open>[selectedChunk, scheduleRecompute]\<close>.\<close>

definition selectionEffect :: "pane \<Rightarrow> pane" where
  "selectionEffect s = scheduleRecompute (pageViews s) (s\<lparr>latestSelected := selectedChunk s\<rparr>)"

text \<open>\<open>onScroll\<close>, \<open>onResize\<close> and the \<open>ResizeObserver\<close> callback.\<close>

definition onPerturbation :: "pane \<Rightarrow> pane" where
  "onPerturbation s =
     (if latestSelected s = None then s else scheduleRecompute (pageViews s) s)"

text \<open>The \<open>MutationObserver\<close> callback: \<open>setTimeout(scheduleRecompute, 50)\<close>.\<close>

definition onMutation :: "pane \<Rightarrow> pane" where
  "onMutation s =
     (if latestSelected s = None then s else s\<lparr>timers := timers s @ [pageViews s]\<rparr>)"

definition timerFired :: "pane \<Rightarrow> pane" where
  "timerFired s =
     (case timers s of
        [] \<Rightarrow> s
      | pvs # rest \<Rightarrow> scheduleRecompute pvs (s\<lparr>timers := rest\<rparr>))"

section \<open>The load effect\<close>

definition digit :: "nat \<Rightarrow> char" where
  "digit n = ''0123456789'' ! n"

function show_nat :: "nat \<Rightarrow> string" where
  "show_nat n = (if n < 10 then [digit n] else show_nat (n div 10) @ [digit (n mod 10)])"
  by pat_completeness auto
termination
  by (relation "measure id") auto

declare show_nat.simps [simp del]

text \<open>\<open>String(err)\<close>; the text of a \<open>TypeError\<close> depends on the engine, only its name is kept.\<close>

fun String_err :: "error \<Rightarrow> string" where
  "String_err TypeError = ''TypeError''"
| "String_err (Rejected r) = r"

definition setPhase :: "nat \<Rightarrow> phase \<Rightarrow> pane \<Rightarrow> pane" where
  "setPhase i p s = s\<lparr>loads := (loads s)[i := (loads s ! i)\<lparr>phase := p\<rparr>]\<rparr>"

text \<open>
  The start of the \<open>async\<close> function, up to its first \<open>await\<close>. The first revision
  calls \<open>pdfjsLib.getDocument\<close> although it imports the library as \<open>pdfjs\<close>; the model
  takes \<open>pdfjsLib\<close> to be there (a global of the page). Where it is not, the call
  throws at once, which is the event \<open>LoadRejected\<close> below.
\<close>

definition startLoad :: "revision \<Rightarrow> pane \<Rightarrow> pane" where
  "startLoad rv s =
     (case rv of
        PdfPane_jsx \<Rightarrow>
          s\<lparr>loads := loads s @ [\<lparr>loadUrl = fileUrl s, cancelled = False, phase = AwaitDocument\<rparr>]\<rparr>
      | Sidebar_jsx \<Rightarrow>
          (let s1 = setLoading True (setError None s)
           in s1\<lparr>loads := loads s1 @
                  [\<lparr>loadUrl = fileUrl s1, cancelled = False, phase = AwaitHead\<rparr>]\<rparr>))"

text \<open>The cleanup of the load effect: \<open>cancelled = true\<close>. Every run but the last has
  been cleaned up before, so setting the flag of all of them is the same.\<close>

definition cleanupLoad :: "pane \<Rightarrow> pane" where
  "cleanupLoad s = s\<lparr>loads := map (\<lambda>l. l\<lparr>cancelled := True\<rparr>) (loads s)\<rparr>"

text \<open>The \<open>catch\<close> block.\<close>

definition catchLoad :: "revision \<Rightarrow> nat \<Rightarrow> error \<Rightarrow> pane \<Rightarrow> pane" where
  "catchLoad rv i err s =
     (let s1 = s\<lparr>consoleErrors := consoleErrors s @ [err]\<rparr>;
          s2 = (case rv of
                  PdfPane_jsx \<Rightarrow> s1
                | Sidebar_jsx \<Rightarrow> setLoading False (setError (Some (String_err err)) s1))
      in setPhase i Finished s2)"

text \<open>
  The end of the \<open>try\<close> block: \<open>setPageViews(views)\<close>, \<open>setLoading(false)\<close> in the
  second revision, \<open>onReady\<close>. The new \<open>pageViews\<close> gives a new \<open>scheduleRecompute\<close>, so
  the effect on \<open>[selectedChunk, scheduleRecompute]\<close> runs again after the render.
\<close>

definition finishLoad :: "revision \<Rightarrow> nat \<Rightarrow> pageView list \<Rightarrow> nat \<Rightarrow> pane \<Rightarrow> pane" where
  "finishLoad rv i views numPages s =
     (let s1 = setPageViews views s;
          s2 = (case rv of PdfPane_jsx \<Rightarrow> s1 | Sidebar_jsx \<Rightarrow> setLoading False s1);
          s3 = (if onReady s2 then s2\<lparr>onReadyCalls := onReadyCalls s2 @ [numPages]\<rparr> else s2);
          s4 = setPhase i Finished s3
      in if mounted s4 then selectionEffect s4 else s4)"

text \<open>The \<open>HEAD\<close> request of the second revision has answered.\<close>

definition headResolved :: "nat \<Rightarrow> bool \<Rightarrow> nat \<Rightarrow> pane \<Rightarrow> pane" where
  "headResolved i ok status s =
     (if \<not> ok then
        (let msg = ''PDF not found at '' @ loadUrl (loads s ! i) @ '' (status ''
                     @ show_nat status @ '')'';
             s1 = s\<lparr>consoleMessages := consoleMessages s @ [msg]\<rparr>
         in setPhase i Finished (setLoading False (setError (Some msg) s1)))
      else setPhase i AwaitDocument s)"

text \<open>\<open>loadingTask.promise\<close> has resolved with a document of \<open>numPages\<close> pages.\<close>

definition docResolved :: "revision \<Rightarrow> nat \<Rightarrow> nat \<Rightarrow> pane \<Rightarrow> pane" where
  "docResolved rv i numPages s =
     (if cancelled (loads s ! i) then setPhase i Finished s
      else (case containerRef s of
              None \<Rightarrow> catchLoad rv i TypeError s
            | Some container \<Rightarrow>
                (let s1 = s\<lparr>containerChildren := []\<rparr>
                 in if 1 \<le> numPages then setPhase i (AwaitPage container 1 numPages []) s1
                    else finishLoad rv i [] numPages s1)))"

text \<open>Page \<open>n\<close> has been fetched and rendered: one turn of the loop.\<close>

definition pageRendered ::
  "revision \<Rightarrow> nat \<Rightarrow> element \<Rightarrow> nat \<Rightarrow> nat \<Rightarrow> pageView list \<Rightarrow> pane \<Rightarrow> pane" where
  "pageRendered rv i container n numPages views s =
     (let wrapper = nextEl s;
          s1 = s\<lparr>nextEl := nextEl s + 1,
                 containerChildren := containerChildren s @ [wrapper]\<rparr>;
          views' = views @ [\<lparr>pageNumber = n, el = wrapper\<rparr>]
      in if n + 1 \<le> numPages then setPhase i (AwaitPage container (n + 1) numPages views') s1
         else finishLoad rv i views' numPages s1)"

section \<open>Events\<close>

text \<open>
  What the event loop delivers: a new \<open>selectedChunk\<close> prop, scroll, resize, the
  \<open>ResizeObserver\<close>, the \<open>MutationObserver\<close>, a 50 ms timer, a display frame with the
  layout of that moment, a new \<open>fileUrl\<close> prop, the settling of a promise awaited by load
  run \<open>i\<close>, and the unmounting of the component. An event is handled to its end,
  with the render and the effects it causes, before the next one.
\<close>

datatype event =
    SelectionChange "chunk option"
  | Scroll
  | Resize
  | ResizeObserved
  | Mutation
  | TimerFired
  | Frame layout
  | FileUrlChange string
  | HeadResolved nat bool nat
  | DocResolved nat nat
  | PageRendered nat
  | LoadRejected nat error
  | Unmount

fun step :: "revision \<Rightarrow> event \<Rightarrow> pane \<Rightarrow> pane" where
  "step rv (SelectionChange c) s =
     (if mounted s then selectionEffect (s\<lparr>selectedChunk := c, latestSelected := c\<rparr>) else s)"
| "step rv Scroll s = (if mounted s then onPerturbation s else s)"
| "step rv Resize s = (if mounted s then onPerturbation s else s)"
| "step rv ResizeObserved s = (if mounted s then onPerturbation s else s)"
| "step rv Mutation s = (if mounted s then onMutation s else s)"
| "step rv TimerFired s = timerFired s"
| "step rv (Frame lay) s = frame lay s"
| "step rv (FileUrlChange url) s =
     (if mounted s then startLoad rv ((cleanupLoad s)\<lparr>fileUrl := url\<rparr>) else s)"
| "step rv (HeadResolved i ok status) s =
     (if i < length (loads s) \<and> phase (loads s ! i) = AwaitHead
      then headResolved i ok status s else s)"
| "step rv (DocResolved i numPages) s =
     (if i < length (loads s) \<and> phase (loads s ! i) = AwaitDocument
      then docResolved rv i numPages s else s)"
| "step rv (PageRendered i) s =
     (if i < length (loads s)
      then (case phase (loads s ! i) of
              AwaitPage container n numPages views \<Rightarrow>
                pageRendered rv i container n numPages views s
            | _ \<Rightarrow> s)
      else s)"
| "step rv (LoadRejected i err) s =
     (if i < length (loads s) \<and> phase (loads s ! i) \<noteq> Finished
      then catchLoad rv i err s else s)"
| "step rv Unmount s =
     (if mounted s then (cleanupLoad s)\<lparr>mounted := False, containerRef := None\<rparr> else s)"

definition run :: "revision \<Rightarrow> event list \<Rightarrow> pane \<Rightarrow> pane" where
  "run rv es s = foldl (\<lambda>t e. step rv e t) s es"

text \<open>
  The state after mounting: the ref is attached, then the effects run in order:
  \<open>latestSelected.current = selectedChunk\<close>, the load effect, the selection effect
  (which schedules the first recompute) and the listeners.
\<close>

definition mount :: "revision \<Rightarrow> string \<Rightarrow> chunk option \<Rightarrow> bool \<Rightarrow> pane" where
  "mount rv url sel ready =
     selectionEffect (startLoad rv
       \<lparr>fileUrl = url, selectedChunk = sel, onReady = ready,
        containerRef = Some 0, containerChildren = [], nextEl = 1,
        pageViews = [], highlights = [], error = None, loading = False,
        rafPending = False, latestSelected = sel, mounted = True,
        rafQueue = [], timers = [], loads = [],
        published = [], mapperCalls = 0, scrolls = [], onReadyCalls = [],
        consoleErrors = [], consoleMessages = [], uncaught = []\<rparr>)"

section \<open>Kinds of events and invariants\<close>

text \<open>The events that call \<open>scheduleRecompute\<close> from a listener, an observer, a timer
  or the selection effect.\<close>

fun trigger :: "event \<Rightarrow> bool" where
  "trigger (SelectionChange c) = True"
| "trigger Scroll = True"
| "trigger Resize = True"
| "trigger ResizeObserved = True"
| "trigger Mutation = True"
| "trigger TimerFired = True"
| "trigger e = False"

text \<open>The same without the selection change.\<close>

fun perturbation :: "event \<Rightarrow> bool" where
  "perturbation (SelectionChange c) = False"
| "perturbation e = trigger e"

fun is_Frame :: "event \<Rightarrow> bool" where
  "is_Frame (Frame lay) = True"
| "is_Frame e = False"

text \<open>
  \<open>rafPending\<close> is set exactly while one callback waits for the next frame; the
  container ref is attached while the component is mounted; the holder
  \<open>latestSelected\<close> agrees with the prop.
\<close>

definition sync_inv :: "pane \<Rightarrow> bool" where
  "sync_inv s \<longleftrightarrow>
     length (rafQueue s) = (if rafPending s then 1 else 0)
     \<and> (mounted s \<longrightarrow> containerRef s \<noteq> None)
     \<and> latestSelected s = selectedChunk s"

text \<open>A published list is derived from the selection \<open>sel\<close>: it is empty, or it is one
  rectangle carrying the id and the page of the selected chunk.\<close>

fun derived :: "chunk option \<Rightarrow> highlight list \<Rightarrow> bool" where
  "derived sel [] = True"
| "derived (Some c) [r] = (h_id r = chunk_id c \<and> h_page r = page c)"
| "derived sel rs = False"

definition published_inv :: "pane \<Rightarrow> bool" where
  "published_inv s \<longleftrightarrow>
     length (highlights s) \<le> 1 \<and> (\<forall>(sel, rs) \<in> set (published s). derived sel rs)"

section \<open>Example inputs\<close>

text \<open>
  Three pages of 600 by 800 pixels, 812 pixels apart, in a container (element 0) whose
  top-left corner coincides with that of page 2.
\<close>

definition demo_views :: "pageView list" where
  "demo_views = [\<lparr>pageNumber = 1, el = 1\<rparr>, \<lparr>pageNumber = 2, el = 2\<rparr>,
                 \<lparr>pageNumber = 3, el = 3\<rparr>]"

definition demo_layout :: layout where
  "demo_layout =
     \<lparr>boundingClientRect =
        (\<lambda>e. if e = 0
              then \<lparr>rect_left = 12, rect_top = 100, rect_width = 640, rect_height = 500\<rparr>
              else \<lparr>rect_left = 12, rect_top = 100 + (real e - 2) * 812,
                    rect_width = 600, rect_height = 800\<rparr>),
      offsetTop = (\<lambda>e. (real e - 1) * 812),
      clientHeight = (\<lambda>e. if e = 0 then 500 else 800)\<rparr>"

definition demo_chunk :: chunk where
  "demo_chunk = \<lparr>chunk_id = ''c1'', page = 2, bbox_normalized = (0.1, 0.2, 0.5, 0.6)\<rparr>"

definition flat_chunk :: chunk where
  "flat_chunk = \<lparr>chunk_id = ''c2'', page = 2, bbox_normalized = (0.3, 0.3, 0.3, 0.3)\<rparr>"

definition far_chunk :: chunk where
  "far_chunk = \<lparr>chunk_id = ''c5'', page = 5, bbox_normalized = (0.1, 0.2, 0.5, 0.6)\<rparr>"

text \<open>The first revision, mounted with \<open>demo_chunk\<close> selected, after a document of
  three pages has been loaded and rendered.\<close>

definition demo_loaded :: pane where
  "demo_loaded =
     run PdfPane_jsx [DocResolved 0 3, PageRendered 0, PageRendered 0, PageRendered 0]
       (mount PdfPane_jsx ''a.pdf'' (Some demo_chunk) False)"

text \<open>Then a frame has run the callback scheduled at mount, and a scroll event has
  scheduled the next recompute.\<close>

definition demo_pending :: pane where
  "demo_pending = run PdfPane_jsx [Frame demo_layout, Scroll] demo_loaded"

text \<open>Then the next frame has published the highlight of \<open>demo_chunk\<close>.\<close>

definition demo_shown :: pane where
  "demo_shown = run PdfPane_jsx [Frame demo_layout] demo_pending"

text \<open>Or instead the component is unmounted while that recompute is pending, and the
  frame comes afterwards.\<close>

definition demo_unmounted :: pane where
  "demo_unmounted = run PdfPane_jsx [Unmount, Frame demo_layout] demo_pending"

text \<open>
  The load of \<open>a.pdf\<close> (two pages) is past \<open>await loadingTask.promise\<close> when \<open>fileUrl\<close>
  changes to \<open>b.pdf\<close>; the two pages of \<open>a.pdf\<close> are rendered afterwards.
\<close>

definition demo_superseded :: pane where
  "demo_superseded =
     run PdfPane_jsx [DocResolved 0 2, FileUrlChange ''b.pdf'', PageRendered 0, PageRendered 0]
       (mount PdfPane_jsx ''a.pdf'' None True)"


text \<open>
  The layout after \<open>container.innerHTML = ""\<close> and one new page (element 3): the
  wrappers of the earlier document are detached, and a detached element has an
  all-zero box, offset and height.
\<close>

definition detached_layout :: layout where
  "detached_layout =
     \<lparr>boundingClientRect =
        (\<lambda>e. if e = 0
              then \<lparr>rect_left = 12, rect_top = 100, rect_width = 640, rect_height = 500\<rparr>
              else if e = 3
              then \<lparr>rect_left = 12, rect_top = 100, rect_width = 600, rect_height = 800\<rparr>
              else \<lparr>rect_left = 0, rect_top = 0, rect_width = 0, rect_height = 0\<rparr>),
      offsetTop = (\<lambda>e. 0),
      clientHeight = (\<lambda>e. if e = 0 then 500 else if e = 3 then 800 else 0)\<rparr>"

text \<open>The \<open>pageViews\<close> of a first document of two pages and of a second one of one page,
  loaded after it.\<close>

definition views_a :: "pageView list" where
  "views_a = [\<lparr>pageNumber = 1, el = 1\<rparr>, \<lparr>pageNumber = 2, el = 2\<rparr>]"

definition views_b :: "pageView list" where
  "views_b = [\<lparr>pageNumber = 1, el = 3\<rparr>]"

text \<open>
  The first revision with \<open>demo_chunk\<close> (page 2) selected: \<open>a.pdf\<close> (two pages) is loaded
  and its highlight shown; then \<open>fileUrl\<close> changes to \<open>b.pdf\<close> (one page). While
  \<open>b.pdf\<close> is being rendered the \<open>MutationObserver\<close> fires and sets its 50 ms timer;
  the load ends and the next frame recomputes against the new \<open>pageViews\<close>.
\<close>

definition demo_switched :: pane where
  "demo_switched =
     run PdfPane_jsx
       [DocResolved 0 2, PageRendered 0, PageRendered 0, Frame demo_layout, Scroll,
        Frame demo_layout, FileUrlChange ''b.pdf'', DocResolved 1 1, Mutation, PageRendered 1,
        Frame detached_layout]
       (mount PdfPane_jsx ''a.pdf'' (Some demo_chunk) False)"

text \<open>Then the timer fires, and the next frame comes.\<close>

definition demo_stale :: pane where
  "demo_stale = run PdfPane_jsx [TimerFired, Frame detached_layout] demo_switched"

section \<open>Properties of the coordinate mapper\<close>

lemma find_Some_not_Nil: "find P xs = Some x \<Longrightarrow> xs \<noteq> []"
  by (cases xs) auto

text \<open>
  Claim C1. For a selected chunk whose page has an entry in \<open>pageViews\<close>, and with
  the container mounted (the formula reads the container's box), the mapper returns
  exactly one rectangle, with
  \<open>left = pageBox.left - viewportBox.left + x0 * pageBox.width\<close>,
  \<open>top = pageBox.top - viewportBox.top + y0 * pageBox.height\<close>,
  \<open>width = max(2, (x1 - x0) * pageBox.width)\<close> and
  \<open>height = max(2, (y1 - y0) * pageBox.height)\<close>; width and height are at least 2,
  and equal to 2 for a box of zero area.
\<close>

theorem computeRectsFromChunk_rect:
  assumes "find (\<lambda>v. pageNumber v = page c) pvs = Some view"
    and "cref = Some container"
    and "bbox_normalized c = (x0, y0, x1, y1)"
    and "pageBox = boundingClientRect lay (el view)"
    and "viewportBox = boundingClientRect lay container"
  shows "computeRectsFromChunk pvs cref lay (Some c) =
           Inr [\<lparr>h_id = chunk_id c,
                  h_left = rect_left pageBox - rect_left viewportBox + x0 * rect_width pageBox,
                  h_top = rect_top pageBox - rect_top viewportBox + y0 * rect_height pageBox,
                  h_width = max 2 ((x1 - x0) * rect_width pageBox),
                  h_height = max 2 ((y1 - y0) * rect_height pageBox),
                  h_page = page c\<rparr>]
         \<and> 2 \<le> max 2 ((x1 - x0) * rect_width pageBox)
         \<and> 2 \<le> max 2 ((y1 - y0) * rect_height pageBox)
         \<and> (x1 = x0 \<longrightarrow> max 2 ((x1 - x0) * rect_width pageBox) = 2)
         \<and> (y1 = y0 \<longrightarrow> max 2 ((y1 - y0) * rect_height pageBox) = 2)"
proof -
  from assms(1) have "pvs \<noteq> []"
    by (rule find_Some_not_Nil)
  with assms show ?thesis
    by (simp add: computeRectsFromChunk_def Let_def)
qed

text \<open>
  The scenario of the specification: pages 1 to 3, the viewport origin at the top-left
  corner of page 2, page 2 of 600 by 800 pixels, the box \<open>(0.1, 0.2, 0.5, 0.6)\<close>; and a
  box of zero area on the same page.
\<close>

theorem computeRectsFromChunk_rect_witness:
  "computeRectsFromChunk demo_views (Some 0) demo_layout (Some demo_chunk) =
     Inr [\<lparr>h_id = ''c1'', h_left = 60, h_top = 160, h_width = 240, h_height = 320,
            h_page = 2\<rparr>]
   \<and> computeRectsFromChunk demo_views (Some 0) demo_layout (Some flat_chunk) =
     Inr [\<lparr>h_id = ''c2'', h_left = 180, h_top = 240, h_width = 2, h_height = 2,
            h_page = 2\<rparr>]"
proof -
  have v: "find (\<lambda>v. pageNumber v = page demo_chunk) demo_views = Some \<lparr>pageNumber = 2, el = 2\<rparr>"
    "find (\<lambda>v. pageNumber v = page flat_chunk) demo_views = Some \<lparr>pageNumber = 2, el = 2\<rparr>"
    by (simp_all add: demo_views_def demo_chunk_def flat_chunk_def)
  have a: "computeRectsFromChunk demo_views (Some 0) demo_layout (Some demo_chunk) =
     Inr [\<lparr>h_id = ''c1'', h_left = 60, h_top = 160, h_width = 240, h_height = 320,
            h_page = 2\<rparr>]"
    using computeRectsFromChunk_rect [OF v(1) refl, of "0.1" "0.2" "0.5" "0.6" _ demo_layout]
    by (simp add: demo_chunk_def demo_layout_def)
  have b: "computeRectsFromChunk demo_views (Some 0) demo_layout (Some flat_chunk) =
     Inr [\<lparr>h_id = ''c2'', h_left = 180, h_top = 240, h_width = 2, h_height = 2,
            h_page = 2\<rparr>]"
    using computeRectsFromChunk_rect [OF v(2) refl, of "0.3" "0.3" "0.3" "0.3" _ demo_layout]
    by (simp add: flat_chunk_def demo_layout_def)
  from a b show ?thesis by simp
qed

text \<open>
  Claim C5. For a selected chunk whose page number has no entry in \<open>pageViews\<close> the
  mapper returns the empty list and throws nothing, whether the container is mounted
  or not.
\<close>

theorem computeRectsFromChunk_page_absent:
  assumes "find (\<lambda>v. pageNumber v = page c) pvs = None"
  shows "computeRectsFromChunk pvs cref lay (Some c) = Inr []"
  using assms by (simp add: computeRectsFromChunk_def)

text \<open>A chunk on page 5 against pages 1 to 3.\<close>

theorem computeRectsFromChunk_page_absent_witness:
  "find (\<lambda>v. pageNumber v = page far_chunk) demo_views = None
   \<and> computeRectsFromChunk demo_views (Some 0) demo_layout (Some far_chunk) = Inr []"
proof -
  have h: "find (\<lambda>v. pageNumber v = page far_chunk) demo_views = None"
    by (simp add: demo_views_def far_chunk_def)
  from h computeRectsFromChunk_page_absent [OF h] show ?thesis by simp
qed

section \<open>Invariants of the reachable states\<close>

lemma run_snoc: "run rv (es @ [e]) s = step rv e (run rv es s)"
  by (simp add: run_def)

lemmas load_defs = startLoad_def cleanupLoad_def catchLoad_def finishLoad_def headResolved_def
  docResolved_def pageRendered_def setPhase_def setPageViews_def setError_def setLoading_def

lemmas sync_defs = selectionEffect_def onPerturbation_def onMutation_def timerFired_def
  scheduleRecompute_def

lemma sync_inv_rafCallback:
  assumes "rafQueue s = []" "mounted s \<longrightarrow> containerRef s \<noteq> None"
    "latestSelected s = selectedChunk s"
  shows "sync_inv (rafCallback q lay s)"
  using assms
  by (auto simp: sync_inv_def rafCallback_def setHighlights_def Let_def
       split: option.splits sum.splits list.splits)

lemma sync_inv_frame: "sync_inv s \<Longrightarrow> sync_inv (frame lay s)"
proof (cases "rafPending s")
  case True
  assume a: "sync_inv s"
  with True obtain q where q: "rafQueue s = [q]"
    by (cases "rafQueue s") (auto simp: sync_inv_def)
  have "sync_inv (rafCallback q lay (s\<lparr>rafQueue := []\<rparr>))"
    using a by (intro sync_inv_rafCallback) (auto simp: sync_inv_def)
  with q show ?thesis by (simp add: frame_def)
next
  case False
  assume "sync_inv s"
  with False show ?thesis by (simp add: frame_def sync_inv_def)
qed

lemma sync_inv_step: "sync_inv s \<Longrightarrow> sync_inv (step rv e s)"
proof (cases e)
  case (Frame lay)
  assume "sync_inv s"
  with Frame show ?thesis by (simp add: sync_inv_frame)
next
  case (PageRendered i)
  assume "sync_inv s"
  with PageRendered show ?thesis
    by (auto simp: sync_inv_def load_defs sync_defs Let_def split: phase.splits revision.splits)
qed (auto simp: sync_inv_def load_defs sync_defs Let_def split: list.splits revision.splits option.splits)

lemma sync_inv_mount: "sync_inv (mount rv url sel ready)"
  by (cases rv) (simp_all add: sync_inv_def mount_def load_defs sync_defs Let_def)

lemma sync_inv_run: "sync_inv s \<Longrightarrow> sync_inv (run rv es s)"
  by (induction es rule: rev_induct) (simp_all add: run_snoc sync_inv_step, simp add: run_def)


lemma computeRectsFromChunk_derived:
  "computeRectsFromChunk pvs cref lay sel = Inr rects \<Longrightarrow> derived sel rects \<and> length rects \<le> 1"
  by (auto simp: computeRectsFromChunk_def Let_def split: option.splits if_splits prod.splits)

lemma published_inv_setHighlights:
  "published_inv s \<Longrightarrow> derived sel rects \<Longrightarrow> length rects \<le> 1 \<Longrightarrow>
   published_inv (setHighlights sel rects s)"
  by (auto simp: published_inv_def setHighlights_def Let_def)

lemma published_inv_cong:
  "published t = published s \<Longrightarrow> highlights t = highlights s \<Longrightarrow>
   published_inv t = published_inv s"
  by (simp add: published_inv_def)

lemma published_inv_rafCallback:
  assumes "published_inv s"
  shows "published_inv (rafCallback q lay s)"
proof (cases "latestSelected s")
  case None
  have "published_inv (setHighlights None [] (s\<lparr>rafPending := False\<rparr>))"
    using assms by (intro published_inv_setHighlights) (simp_all add: published_inv_def)
  with None show ?thesis by (simp add: rafCallback_def)
next
  case (Some c)
  let ?s2 = "s\<lparr>rafPending := False, mapperCalls := mapperCalls s + 1\<rparr>"
  have inv2: "published_inv ?s2"
    using assms by (simp add: published_inv_def)
  show ?thesis
  proof (cases "computeRectsFromChunk q (containerRef s) lay (Some c)")
    case (Inl e)
    with Some inv2 show ?thesis
      by (simp add: rafCallback_def Let_def published_inv_def)
  next
    case (Inr rects)
    from computeRectsFromChunk_derived [OF Inr]
    have "published_inv (setHighlights (Some c) rects ?s2)"
      using inv2 by (intro published_inv_setHighlights) simp_all
    then have "published_inv (setHighlights (Some c) rects ?s2\<lparr>scrolls := x\<rparr>)" for x
      by (simp add: published_inv_def setHighlights_def Let_def)
    with Some Inr \<open>published_inv (setHighlights (Some c) rects ?s2)\<close> show ?thesis
      by (auto simp: rafCallback_def Let_def split: list.splits option.splits)
  qed
qed

lemma published_inv_foldl:
  "published_inv s \<Longrightarrow> published_inv (foldl (\<lambda>t pvs. rafCallback pvs lay t) s qs)"
  by (induction qs arbitrary: s) (simp_all add: published_inv_rafCallback)

lemma published_inv_frame: "published_inv s \<Longrightarrow> published_inv (frame lay s)"
  unfolding frame_def by (rule published_inv_foldl) (simp add: published_inv_def)

lemma step_observations:
  assumes "\<not> is_Frame e"
  shows "published (step rv e s) = published s \<and> highlights (step rv e s) = highlights s
       \<and> mapperCalls (step rv e s) = mapperCalls s \<and> scrolls (step rv e s) = scrolls s
       \<and> uncaught (step rv e s) = uncaught s"
proof (cases e)
  case (PageRendered i)
  then show ?thesis
    by (auto simp: load_defs sync_defs Let_def split: phase.splits revision.splits)
next
  case (Frame lay)
  with assms show ?thesis by simp
qed (auto simp: load_defs sync_defs Let_def split: list.splits revision.splits option.splits)

lemma published_inv_step: "published_inv s \<Longrightarrow> published_inv (step rv e s)"
proof (cases "is_Frame e")
  case True
  assume "published_inv s"
  with True show ?thesis by (cases e) (simp_all add: published_inv_frame)
next
  case False
  assume a: "published_inv s"
  from step_observations [OF False, of rv s] have "published_inv (step rv e s) = published_inv s"
    by (intro published_inv_cong) simp_all
  with a show ?thesis by simp
qed

lemma published_inv_mount: "published_inv (mount rv url sel ready)"
  by (cases rv) (simp_all add: published_inv_def mount_def load_defs sync_defs Let_def)

lemma published_inv_run: "published_inv s \<Longrightarrow> published_inv (run rv es s)"
  by (induction es rule: rev_induct) (simp_all add: run_snoc published_inv_step, simp add: run_def)

text \<open>
  In every state reachable from mounting the component, the \<open>highlights\<close> state has at
  most one member, every list ever passed to \<open>setHighlights\<close> has at most one member,
  and the holder \<open>latestSelected\<close> agrees with the (single, nullable) \<open>selectedChunk\<close>
  prop.
\<close>

lemma highlights_zero_or_one:
  "length (highlights (run rv es (mount rv url sel ready))) \<le> 1
   \<and> (\<forall>(sel', rs) \<in> set (published (run rv es (mount rv url sel ready))).
         length rs \<le> 1 \<and> derived sel' rs)
   \<and> latestSelected (run rv es (mount rv url sel ready))
       = selectedChunk (run rv es (mount rv url sel ready))"
proof -
  let ?s = "run rv es (mount rv url sel ready)"
  have p: "published_inv ?s"
    by (rule published_inv_run) (rule published_inv_mount)
  have q: "sync_inv ?s"
    by (rule sync_inv_run) (rule sync_inv_mount)
  have "length rs \<le> 1" if "derived sel' rs" for sel' rs
    using that by (cases "(sel', rs)" rule: derived.cases) simp_all
  with p q show ?thesis
    by (auto simp: published_inv_def sync_inv_def)
qed

section \<open>Evaluating the example runs\<close>

lemma run_Cons: "run rv (e # es) s = run rv es (step rv e s)"
  by (simp add: run_def)

lemma run_Nil: "run rv [] s = s"
  by (simp add: run_def)

lemma demo_loaded_eq:
  "demo_loaded =
     \<lparr>fileUrl = ''a.pdf'', selectedChunk = Some demo_chunk, onReady = False,
      containerRef = Some 0, containerChildren = [1, 2, 3], nextEl = 4,
      pageViews = demo_views, highlights = [], error = None, loading = False,
      rafPending = True, latestSelected = Some demo_chunk, mounted = True,
      rafQueue = [[]], timers = [], loads = [\<lparr>loadUrl = ''a.pdf'', cancelled = False, phase = Finished\<rparr>],
      published = [], mapperCalls = 0, scrolls = [], onReadyCalls = [],
      consoleErrors = [], consoleMessages = [], uncaught = []\<rparr>"
  by (simp add: demo_loaded_def run_Cons run_Nil mount_def load_defs sync_defs Let_def demo_views_def)

lemma demo_pending_eq:
  "demo_pending =
     \<lparr>fileUrl = ''a.pdf'', selectedChunk = Some demo_chunk, onReady = False,
      containerRef = Some 0, containerChildren = [1, 2, 3], nextEl = 4,
      pageViews = demo_views, highlights = [], error = None, loading = False,
      rafPending = True, latestSelected = Some demo_chunk, mounted = True,
      rafQueue = [demo_views], timers = [], loads = [\<lparr>loadUrl = ''a.pdf'', cancelled = False, phase = Finished\<rparr>],
      published = [(Some demo_chunk, [])], mapperCalls = 1, scrolls = [], onReadyCalls = [],
      consoleErrors = [], consoleMessages = [], uncaught = []\<rparr>"
  by (simp add: demo_pending_def demo_loaded_eq run_Cons run_Nil frame_def rafCallback_def
        computeRectsFromChunk_def setHighlights_def sync_defs Let_def)

lemma demo_pending_reachable:
  "demo_pending =
     run PdfPane_jsx [DocResolved 0 3, PageRendered 0, PageRendered 0, PageRendered 0,
                      Frame demo_layout, Scroll]
       (mount PdfPane_jsx ''a.pdf'' (Some demo_chunk) False)"
  by (simp add: demo_pending_def demo_loaded_def run_def)

lemma demo_rects:
  "computeRectsFromChunk demo_views (Some 0) demo_layout (Some demo_chunk) =
     Inr [\<lparr>h_id = ''c1'', h_left = 60, h_top = 160, h_width = 240, h_height = 320,
            h_page = 2\<rparr>]"
  "computeRectsFromChunk demo_views (Some 0) demo_layout (Some flat_chunk) =
     Inr [\<lparr>h_id = ''c2'', h_left = 180, h_top = 240, h_width = 2, h_height = 2,
            h_page = 2\<rparr>]"
  by (simp_all add: computeRectsFromChunk_def demo_views_def demo_layout_def demo_chunk_def
        flat_chunk_def Let_def)

lemma demo_shown_eq:
  "demo_shown =
     \<lparr>fileUrl = ''a.pdf'', selectedChunk = Some demo_chunk, onReady = False,
      containerRef = Some 0, containerChildren = [1, 2, 3], nextEl = 4,
      pageViews = demo_views,
      highlights = [\<lparr>h_id = ''c1'', h_left = 60, h_top = 160, h_width = 240,
                      h_height = 320, h_page = 2\<rparr>],
      error = None, loading = False,
      rafPending = False, latestSelected = Some demo_chunk, mounted = True,
      rafQueue = [], timers = [], loads = [\<lparr>loadUrl = ''a.pdf'', cancelled = False, phase = Finished\<rparr>],
      published = [(Some demo_chunk, []),
                   (Some demo_chunk, [\<lparr>h_id = ''c1'', h_left = 60, h_top = 160, h_width = 240,
                                          h_height = 320, h_page = 2\<rparr>])],
      mapperCalls = 2, scrolls = [962], onReadyCalls = [],
      consoleErrors = [], consoleMessages = [], uncaught = []\<rparr>"
proof -
  have f: "find (\<lambda>pv. pageNumber pv = 2) demo_views = Some \<lparr>pageNumber = 2, el = 2\<rparr>"
    by (simp add: demo_views_def)
  show ?thesis
    by (simp add: demo_shown_def demo_pending_eq run_Cons run_Nil frame_def rafCallback_def
          demo_rects setHighlights_def Let_def f)
      (simp add: demo_layout_def)
qed

lemma demo_shown_reachable:
  "demo_shown =
     run PdfPane_jsx [DocResolved 0 3, PageRendered 0, PageRendered 0, PageRendered 0,
                      Frame demo_layout, Scroll, Frame demo_layout]
       (mount PdfPane_jsx ''a.pdf'' (Some demo_chunk) False)"
  by (simp add: demo_shown_def demo_pending_def demo_loaded_def run_def)

section \<open>Coalescing of recomputes\<close>

lemma trigger_step_pending:
  assumes "trigger e" "rafPending s" "rafQueue s = [q]"
  shows "rafPending (step rv e s) \<and> rafQueue (step rv e s) = [q]
       \<and> containerRef (step rv e s) = containerRef s
       \<and> mounted (step rv e s) = mounted s
       \<and> (perturbation e \<longrightarrow> latestSelected (step rv e s) = latestSelected s)"
  using assms
  by (cases e) (auto simp: sync_defs split: list.splits)

lemma trigger_not_Frame: "trigger e \<Longrightarrow> \<not> is_Frame e"
  by (cases e) simp_all

lemma perturbation_trigger: "perturbation e \<Longrightarrow> trigger e"
  by (cases e) simp_all

lemma trigger_run_pending:
  assumes "\<forall>e\<in>set es. trigger e" "rafPending s" "rafQueue s = [q]"
  shows "rafPending (run rv es s) \<and> rafQueue (run rv es s) = [q]
       \<and> containerRef (run rv es s) = containerRef s
       \<and> mounted (run rv es s) = mounted s
       \<and> ((\<forall>e\<in>set es. perturbation e) \<longrightarrow> latestSelected (run rv es s) = latestSelected s)"
  using assms
proof (induction es rule: rev_induct)
  case Nil
  then show ?case by (simp add: run_Nil)
next
  case (snoc e es)
  let ?t = "run rv es s"
  from snoc have ih: "rafPending ?t" "rafQueue ?t = [q]" "containerRef ?t = containerRef s"
    "mounted ?t = mounted s"
    "(\<forall>e\<in>set es. perturbation e) \<longrightarrow> latestSelected ?t = latestSelected s"
    by simp_all
  from snoc.prems have "trigger e" by simp
  from trigger_step_pending [OF this ih(1) ih(2), of rv] ih
  show ?case by (simp add: run_snoc)
qed

lemma observations_run:
  assumes "\<forall>e\<in>set es. \<not> is_Frame e"
  shows "published (run rv es s) = published s \<and> highlights (run rv es s) = highlights s
       \<and> mapperCalls (run rv es s) = mapperCalls s \<and> scrolls (run rv es s) = scrolls s
       \<and> uncaught (run rv es s) = uncaught s"
  using assms
proof (induction es rule: rev_induct)
  case Nil
  then show ?case by (simp add: run_Nil)
next
  case (snoc e es)
  then have "\<not> is_Frame e" by simp
  from step_observations [OF this, of rv "run rv es s"] snoc show ?case
    by (simp add: run_snoc)
qed

lemma frame_single: "rafQueue s = [q] \<Longrightarrow> frame lay s = rafCallback q lay (s\<lparr>rafQueue := []\<rparr>)"
  by (simp add: frame_def)

lemma computeRectsFromChunk_mounted:
  "\<exists>rects. computeRectsFromChunk pvs (Some k) lay sel = Inr rects"
  by (simp add: computeRectsFromChunk_def Let_def split: option.splits prod.splits)

lemma rafCallback_None:
  assumes "latestSelected s = None"
  shows "published (rafCallback q lay s) = published s @ [(None, [])]
       \<and> highlights (rafCallback q lay s) = (if mounted s then [] else highlights s)
       \<and> mapperCalls (rafCallback q lay s) = mapperCalls s
       \<and> scrolls (rafCallback q lay s) = scrolls s
       \<and> uncaught (rafCallback q lay s) = uncaught s"
  using assms by (simp add: rafCallback_def setHighlights_def Let_def)

lemma rafCallback_Some:
  assumes "latestSelected s = Some c"
    and "computeRectsFromChunk q (containerRef s) lay (Some c) = Inr rects"
  shows "published (rafCallback q lay s) = published s @ [(Some c, rects)]
       \<and> highlights (rafCallback q lay s) = (if mounted s then rects else highlights s)
       \<and> mapperCalls (rafCallback q lay s) = mapperCalls s + 1
       \<and> uncaught (rafCallback q lay s) = uncaught s"
  using assms
  by (auto simp: rafCallback_def setHighlights_def Let_def split: list.splits option.splits)

lemma rafCallback_throws:
  assumes "latestSelected s = Some c"
    and "computeRectsFromChunk q (containerRef s) lay (Some c) = Inl e"
  shows "published (rafCallback q lay s) = published s
       \<and> highlights (rafCallback q lay s) = highlights s
       \<and> mapperCalls (rafCallback q lay s) = mapperCalls s + 1
       \<and> uncaught (rafCallback q lay s) = uncaught s @ [e]"
  using assms by (simp add: rafCallback_def Let_def)

lemma reachable_pending:
  assumes "s = run rv es (mount rv url sel ready)" "rafPending s"
  shows "\<exists>q. rafQueue s = [q]"
proof -
  have "sync_inv s"
    unfolding assms(1) by (rule sync_inv_run) (rule sync_inv_mount)
  with assms(2) have "length (rafQueue s) = 1"
    by (simp add: sync_inv_def)
  then show ?thesis
    by (cases "rafQueue s") simp_all
qed

text \<open>
  Claim C2, as amended. While a recompute is pending in a reachable state, no
  sequence of triggering events (selection change, scroll, resize, \<open>ResizeObserver\<close>,
  mutation, the 50 ms timer) invokes the coordinate mapper or publishes anything; the
  next frame runs one callback, which invokes \<open>computeRectsFromChunk\<close> exactly once
  when the selection it reads is not null and not at all when it is null, and which
  publishes exactly one highlight state while the component is mounted.
\<close>

theorem coalesced_recompute:
  assumes reach: "s = run rv es0 (mount rv url sel ready)"
    and pending: "rafPending s"
    and trig: "\<forall>e\<in>set es. trigger e"
    and s': "s' = run rv es s"
    and s'': "s'' = step rv (Frame lay) s'"
  shows "mapperCalls s' = mapperCalls s \<and> published s' = published s
       \<and> mapperCalls s'' = mapperCalls s + (if latestSelected s' = None then 0 else 1)
       \<and> length (published s'') \<le> length (published s) + 1
       \<and> (mounted s \<longrightarrow> length (published s'') = length (published s) + 1)
       \<and> \<not> rafPending s'' \<and> rafQueue s'' = []"
proof -
  from reachable_pending [OF reach pending] obtain q where q: "rafQueue s = [q]" ..
  have inv: "sync_inv s"
    unfolding reach by (rule sync_inv_run) (rule sync_inv_mount)
  from trigger_run_pending [OF trig pending q, of rv] s'
  have t: "rafPending s'" "rafQueue s' = [q]" "containerRef s' = containerRef s"
    "mounted s' = mounted s"
    by simp_all
  from trig have "\<forall>e\<in>set es. \<not> is_Frame e"
    by (simp add: trigger_not_Frame)
  from observations_run [OF this, of rv s] s'
  have o: "published s' = published s" "mapperCalls s' = mapperCalls s"
    by simp_all
  let ?t = "s'\<lparr>rafQueue := []\<rparr>"
  have f: "s'' = rafCallback q lay ?t"
    using s'' t(2) by (simp add: frame_single)
  have r: "\<not> rafPending s''" "rafQueue s'' = []"
    unfolding f
    by (simp_all add: rafCallback_def setHighlights_def Let_def
          split: option.splits sum.splits list.splits)
  show ?thesis
  proof (cases "latestSelected s'")
    case None
    with rafCallback_None [of ?t q lay] f o r show ?thesis by simp
  next
    case (Some c)
    show ?thesis
    proof (cases "computeRectsFromChunk q (containerRef s') lay (Some c)")
      case (Inl e)
      have "\<not> mounted s"
      proof
        assume "mounted s"
        with inv obtain k where "containerRef s = Some k"
          by (auto simp: sync_inv_def)
        with computeRectsFromChunk_mounted [of q k lay "Some c"] Inl t(3) show False
          by simp
      qed
      with rafCallback_throws [of ?t c q lay e] Some Inl f o r show ?thesis by simp
    next
      case (Inr rects)
      with rafCallback_Some [of ?t c q lay rects] Some f o r show ?thesis by simp
    qed
  qed
qed


theorem coalesced_recompute_witness:
  "rafPending demo_pending
   \<and> mapperCalls (run PdfPane_jsx [Scroll, Resize, Mutation, SelectionChange (Some flat_chunk)]
        demo_pending) = mapperCalls demo_pending
   \<and> mapperCalls (step PdfPane_jsx (Frame demo_layout)
        (run PdfPane_jsx [Scroll, Resize, Mutation, SelectionChange (Some flat_chunk)]
           demo_pending)) = mapperCalls demo_pending + 1
   \<and> length (published (step PdfPane_jsx (Frame demo_layout)
        (run PdfPane_jsx [Scroll, Resize, Mutation, SelectionChange (Some flat_chunk)]
           demo_pending))) = length (published demo_pending) + 1"
proof -
  let ?es = "[Scroll, Resize, Mutation, SelectionChange (Some flat_chunk)]"
  have p: "rafPending demo_pending"
    by (simp add: demo_pending_eq)
  have t: "\<forall>e\<in>set ?es. trigger e"
    by simp
  have l: "latestSelected (run PdfPane_jsx ?es demo_pending) = Some flat_chunk"
    by (simp add: demo_pending_eq run_Cons run_Nil sync_defs)
  have m: "mounted demo_pending"
    by (simp add: demo_pending_eq)
  from coalesced_recompute [OF demo_pending_reachable p t refl refl, of demo_layout] p l m
  show ?thesis by simp
qed

text \<open>With a recompute pending, the selection changes to null: the frame publishes the
  empty list without any call of \<open>computeRectsFromChunk\<close>.\<close>

theorem coalesced_recompute_counterexample:
  "rafPending demo_pending
   \<and> mapperCalls (run PdfPane_jsx [SelectionChange None, Frame demo_layout] demo_pending)
       = mapperCalls demo_pending
   \<and> published (run PdfPane_jsx [SelectionChange None, Frame demo_layout] demo_pending)
       = published demo_pending @ [(None, [])]"
  by (simp add: demo_pending_eq run_Cons run_Nil sync_defs frame_def rafCallback_def
        setHighlights_def Let_def)

section \<open>The latest selection\<close>

lemma selection_step:
  assumes "sync_inv s" "mounted s" "s1 = step rv (SelectionChange c) s"
  shows "rafPending s1 \<and> rafQueue s1 = [case rafQueue s of [] \<Rightarrow> pageViews s | p # ps \<Rightarrow> p]
       \<and> latestSelected s1 = c \<and> mounted s1 \<and> containerRef s1 = containerRef s"
proof (cases "rafPending s")
  case True
  with assms(1) obtain p where "rafQueue s = [p]"
    by (cases "rafQueue s") (auto simp: sync_inv_def)
  with True assms(2,3) show ?thesis
    by (simp add: sync_defs)
next
  case False
  with assms(1) have "rafQueue s = []"
    by (simp add: sync_inv_def)
  with False assms(2,3) show ?thesis
    by (simp add: sync_defs)
qed

text \<open>
  Claim C4. From a reachable state of the mounted component, the selection changes
  to \<open>c1\<close> and then to \<open>c2\<close> before the next frame, with any scroll, resize, mutation
  and timer events in between and after. Nothing is published before the frame, and
  the frame publishes exactly one list, computed for \<open>c2\<close> (read from
  \<open>latestSelected\<close> when the callback runs) against the \<open>pageViews\<close> the callback holds;
  every rectangle in it has the id and the page of \<open>c2\<close>.
\<close>

theorem latest_selection_published:
  assumes reach: "s = run rv es0 (mount rv url sel ready)"
    and m: "mounted s"
    and es1: "\<forall>e\<in>set es1. perturbation e"
    and es2: "\<forall>e\<in>set es2. perturbation e"
    and s3: "s3 = run rv es2 (step rv (SelectionChange (Some c2))
                   (run rv es1 (step rv (SelectionChange (Some c1)) s)))"
    and q: "q = (case rafQueue s of [] \<Rightarrow> pageViews s | p # ps \<Rightarrow> p)"
  shows "published s3 = published s
       \<and> (\<exists>rects. computeRectsFromChunk q (containerRef s) lay (Some c2) = Inr rects
             \<and> published (step rv (Frame lay) s3) = published s @ [(Some c2, rects)]
             \<and> highlights (step rv (Frame lay) s3) = rects
             \<and> (\<forall>r\<in>set rects. h_id r = chunk_id c2 \<and> h_page r = page c2))"
proof -
  have inv: "sync_inv s"
    unfolding reach by (rule sync_inv_run) (rule sync_inv_mount)
  define a where "a = step rv (SelectionChange (Some c1)) s"
  define b where "b = run rv es1 a"
  define c where "c = step rv (SelectionChange (Some c2)) b"
  have s3': "s3 = run rv es2 c"
    by (simp add: s3 a_def b_def c_def)
  from selection_step [OF inv m a_def]
  have a: "rafPending a" "rafQueue a = [q]" "mounted a" "containerRef a = containerRef s"
    by (simp_all add: q)
  from es1 have t1: "\<forall>e\<in>set es1. trigger e"
    by (simp add: perturbation_trigger)
  from trigger_run_pending [OF t1 a(1) a(2), of rv]
  have b: "rafPending b" "rafQueue b = [q]" "mounted b" "containerRef b = containerRef s"
    using a by (simp_all add: b_def)
  have "sync_inv b"
    unfolding b_def a_def by (intro sync_inv_run sync_inv_step inv)
  from selection_step [OF this b(3) c_def]
  have c: "rafPending c" "rafQueue c = [q]" "mounted c" "containerRef c = containerRef s"
    "latestSelected c = Some c2"
    using b by simp_all
  from es2 have t2: "\<forall>e\<in>set es2. trigger e"
    by (simp add: perturbation_trigger)
  from trigger_run_pending [OF t2 c(1) c(2), of rv] es2
  have d: "rafQueue s3 = [q]" "mounted s3" "containerRef s3 = containerRef s"
    "latestSelected s3 = Some c2"
    using c by (simp_all add: s3')
  have nf: "\<not> is_Frame e" if "perturbation e" for e
    using that by (simp add: perturbation_trigger trigger_not_Frame)
  have "published s3 = published c"
    using observations_run [of es2 rv c] es2 nf by (simp add: s3')
  also have "\<dots> = published b"
    using step_observations [of "SelectionChange (Some c2)" rv b] by (simp add: c_def)
  also have "\<dots> = published a"
    using observations_run [of es1 rv a] es1 nf by (simp add: b_def)
  also have "\<dots> = published s"
    using step_observations [of "SelectionChange (Some c1)" rv s] by (simp add: a_def)
  finally have p: "published s3 = published s" .
  from inv m obtain k where k: "containerRef s = Some k"
    by (auto simp: sync_inv_def)
  from computeRectsFromChunk_mounted [of q k lay "Some c2"]
  obtain rects where rects: "computeRectsFromChunk q (containerRef s) lay (Some c2) = Inr rects"
    using k by auto
  let ?t = "s3\<lparr>rafQueue := []\<rparr>"
  have f: "frame lay s3 = rafCallback q lay ?t"
    using d(1) by (rule frame_single)
  from rafCallback_Some [of ?t c2 q lay rects] d rects
  have "published (step rv (Frame lay) s3) = published s @ [(Some c2, rects)]"
    "highlights (step rv (Frame lay) s3) = rects"
    by (simp_all add: f p)
  moreover from computeRectsFromChunk_derived [OF rects]
  have "\<forall>r\<in>set rects. h_id r = chunk_id c2 \<and> h_page r = page c2"
    by (cases "(Some c2, rects)" rule: derived.cases) simp_all
  ultimately show ?thesis
    using p rects by blast
qed

theorem latest_selection_published_witness:
  "published (step PdfPane_jsx (Frame demo_layout)
      (run PdfPane_jsx [Mutation] (step PdfPane_jsx (SelectionChange (Some flat_chunk))
         (run PdfPane_jsx [Scroll] (step PdfPane_jsx (SelectionChange (Some far_chunk))
            demo_pending)))))
     = published demo_pending @
         [(Some flat_chunk, [\<lparr>h_id = ''c2'', h_left = 180, h_top = 240, h_width = 2,
                                 h_height = 2, h_page = 2\<rparr>])]"
proof -
  have m: "mounted demo_pending"
    by (simp add: demo_pending_eq)
  have q: "demo_views = (case rafQueue demo_pending of [] \<Rightarrow> pageViews demo_pending | p # ps \<Rightarrow> p)"
    by (simp add: demo_pending_eq)
  have c: "containerRef demo_pending = Some 0"
    by (simp add: demo_pending_eq)
  have e1: "\<forall>e\<in>set [Scroll]. perturbation e" and e2: "\<forall>e\<in>set [Mutation]. perturbation e"
    by simp_all
  from latest_selection_published [OF demo_pending_reachable m e1 e2 refl q,
    of flat_chunk far_chunk demo_layout]
  show ?thesis
    by (auto simp: c demo_rects)
qed


text \<open>
  Claim C7. From a reachable state of the mounted component, selecting no chunk
  and then letting the next frame come (with any scroll, resize, mutation and timer
  events before it) publishes the empty list, leaves \<open>highlights\<close> empty, issues no
  \<open>scrollTo\<close>, calls no mapper and throws nothing.
\<close>

theorem null_selection_clears:
  assumes reach: "s = run rv es0 (mount rv url sel ready)"
    and m: "mounted s"
    and es: "\<forall>e\<in>set es. perturbation e"
    and s': "s' = step rv (Frame lay) (run rv es (step rv (SelectionChange None) s))"
  shows "highlights s' = [] \<and> published s' = published s @ [(None, [])]
       \<and> scrolls s' = scrolls s \<and> mapperCalls s' = mapperCalls s
       \<and> uncaught s' = uncaught s"
proof -
  have inv: "sync_inv s"
    unfolding reach by (rule sync_inv_run) (rule sync_inv_mount)
  define a where "a = step rv (SelectionChange None) s"
  define b where "b = run rv es a"
  obtain q where q: "q = (case rafQueue s of [] \<Rightarrow> pageViews s | p # ps \<Rightarrow> p)"
    by simp
  from selection_step [OF inv m a_def]
  have a: "rafPending a" "rafQueue a = [q]" "mounted a" "latestSelected a = None"
    by (simp_all add: q)
  from es have t: "\<forall>e\<in>set es. trigger e"
    by (simp add: perturbation_trigger)
  from trigger_run_pending [OF t a(1) a(2), of rv] es
  have b: "rafQueue b = [q]" "mounted b" "latestSelected b = None"
    using a by (simp_all add: b_def)
  have nf: "\<forall>e\<in>set es. \<not> is_Frame e"
    using es by (simp add: perturbation_trigger trigger_not_Frame)
  from observations_run [OF nf, of rv a] step_observations [of "SelectionChange None" rv s]
  have o: "published b = published s" "scrolls b = scrolls s" "mapperCalls b = mapperCalls s"
    "uncaught b = uncaught s"
    by (simp_all add: a_def b_def)
  let ?t = "b\<lparr>rafQueue := []\<rparr>"
  have f: "s' = rafCallback q lay ?t"
    using b(1) by (simp add: s' a_def b_def frame_single)
  from rafCallback_None [of ?t q lay] b o show ?thesis
    by (simp add: f)
qed

theorem null_selection_clears_witness:
  "highlights demo_shown = [\<lparr>h_id = ''c1'', h_left = 60, h_top = 160, h_width = 240,
                              h_height = 320, h_page = 2\<rparr>]
   \<and> highlights (step PdfPane_jsx (Frame demo_layout)
        (run PdfPane_jsx [Scroll, Mutation] (step PdfPane_jsx (SelectionChange None) demo_shown)))
       = []
   \<and> scrolls (step PdfPane_jsx (Frame demo_layout)
        (run PdfPane_jsx [Scroll, Mutation] (step PdfPane_jsx (SelectionChange None) demo_shown)))
       = scrolls demo_shown"
proof -
  have m: "mounted demo_shown"
    by (simp add: demo_shown_eq)
  have e: "\<forall>e\<in>set [Scroll, Mutation]. perturbation e"
    by simp
  from null_selection_clears [OF demo_shown_reachable m e refl, of demo_layout]
  show ?thesis
    by (simp add: demo_shown_eq)
qed

section \<open>The centering scroll\<close>

text \<open>
  Claim C10. Whenever the callback publishes a non-empty list, it issues one
  \<open>scrollTo\<close> whose target is
  \<open>max(0, pageTop - container.clientHeight / 2 + pageEl.clientHeight / 2)\<close> for the page
  of the rectangle: the target is never negative, and when the clamp is inactive the
  middle of the viewport (target plus half the container height) is the middle of the
  page.
\<close>

theorem centering_scroll:
  assumes "published (rafCallback q lay s) = published s @ [(sel, r # rs)]"
  shows "\<exists>v container.
           find (\<lambda>pv. pageNumber pv = h_page r) q = Some v \<and> containerRef s = Some container
           \<and> scrolls (rafCallback q lay s) =
               scrolls s @ [max 0 (offsetTop lay (el v) - clientHeight lay container / 2
                                    + clientHeight lay (el v) / 2)]
           \<and> 0 \<le> last (scrolls (rafCallback q lay s))
           \<and> (0 \<le> offsetTop lay (el v) - clientHeight lay container / 2
                     + clientHeight lay (el v) / 2 \<longrightarrow>
                last (scrolls (rafCallback q lay s)) + clientHeight lay container / 2
                  = offsetTop lay (el v) + clientHeight lay (el v) / 2)"
proof (cases "latestSelected s")
  case None
  with assms rafCallback_None [of s q lay] show ?thesis by simp
next
  case (Some c)
  show ?thesis
  proof (cases "computeRectsFromChunk q (containerRef s) lay (Some c)")
    case (Inl e)
    with assms rafCallback_throws [of s c q lay e] Some show ?thesis by simp
  next
    case (Inr rects)
    with assms rafCallback_Some [of s c q lay rects] Some have rects: "rects = r # rs"
      by simp
    from Inr rects obtain v k where v: "find (\<lambda>pv. pageNumber pv = page c) q = Some v"
      and k: "containerRef s = Some k" and pg: "h_page r = page c"
      by (auto simp: computeRectsFromChunk_def Let_def split: option.splits if_splits prod.splits)
    have "scrolls (rafCallback q lay s) =
            scrolls s @ [max 0 (offsetTop lay (el v) - clientHeight lay k / 2
                                 + clientHeight lay (el v) / 2)]"
      using Some Inr rects v k pg
      by (simp add: rafCallback_def setHighlights_def Let_def)
    with v k pg show ?thesis by auto
  qed
qed


theorem centering_scroll_witness:
  "published (rafCallback demo_views demo_layout demo_pending) =
     published demo_pending @
       [(Some demo_chunk, [\<lparr>h_id = ''c1'', h_left = 60, h_top = 160, h_width = 240,
                              h_height = 320, h_page = 2\<rparr>])]
   \<and> scrolls (rafCallback demo_views demo_layout demo_pending) = [962]"
proof -
  have l: "latestSelected demo_pending = Some demo_chunk" "containerRef demo_pending = Some 0"
    "scrolls demo_pending = []"
    by (simp_all add: demo_pending_eq)
  from rafCallback_Some [of demo_pending demo_chunk demo_views demo_layout] l demo_rects(1)
  have h: "published (rafCallback demo_views demo_layout demo_pending) =
     published demo_pending @
       [(Some demo_chunk, [\<lparr>h_id = ''c1'', h_left = 60, h_top = 160, h_width = 240,
                              h_height = 320, h_page = 2\<rparr>])]"
    by simp
  have f: "find (\<lambda>pv. pageNumber pv = 2) demo_views = Some \<lparr>pageNumber = 2, el = 2\<rparr>"
    by (simp add: demo_views_def)
  from centering_scroll [OF h] f l
  have "scrolls (rafCallback demo_views demo_layout demo_pending) = [962]"
    by (auto simp: demo_layout_def)
  with h show ?thesis by simp
qed

section \<open>The container ref after unmounting\<close>

text \<open>
  Claim C6 asks that no exception escapes the recompute for any state of registry and
  container. With the selected chunk's page in \<open>pageViews\<close> and \<open>containerRef.current\<close>
  null, \<open>computeRectsFromChunk\<close> throws a \<open>TypeError\<close>; the state is reached by
  unmounting while a recompute is pending, and the callback then publishes nothing.
  (The scroll part of the same callback tests \<open>containerRef.current\<close> first.)
\<close>

theorem recompute_after_unmount_throws:
  "computeRectsFromChunk demo_views None demo_layout (Some demo_chunk) = Inl TypeError
   \<and> uncaught demo_unmounted = [TypeError]
   \<and> published demo_unmounted = published demo_pending
   \<and> highlights demo_unmounted = highlights demo_pending"
proof -
  have c: "computeRectsFromChunk demo_views None demo_layout (Some demo_chunk) = Inl TypeError"
    by (simp add: computeRectsFromChunk_def demo_views_def demo_chunk_def)
  then show ?thesis
    by (simp add: demo_unmounted_def demo_pending_eq run_Cons run_Nil cleanupLoad_def frame_def
          rafCallback_def Let_def)
qed

section \<open>Superseded and failed loads\<close>

lemma docResolved_cancelled:
  assumes "i < length (loads s)" "phase (loads s ! i) = AwaitDocument" "cancelled (loads s ! i)"
  shows "step rv (DocResolved i numPages) s = setPhase i Finished s"
  using assms by (simp add: docResolved_def)

text \<open>
  Claim C3 asks that a load superseded before it resolves has no effect when its result
  arrives. The \<open>cancelled\<close> flag is tested once, after \<open>await loadingTask.promise\<close>. A
  load superseded later, inside its page loop, still appends its pages to the
  container, replaces \<open>pageViews\<close> and calls \<open>onReady\<close>; and in the second revision a
  superseded load whose \<open>HEAD\<close> request fails still sets \<open>error\<close> and clears \<open>loading\<close>.
\<close>

theorem superseded_load_rebuilds_registry:
  "pageViews (run PdfPane_jsx [DocResolved 0 2, FileUrlChange ''b.pdf'']
                (mount PdfPane_jsx ''a.pdf'' None True)) = []
   \<and> cancelled (loads demo_superseded ! 0)
   \<and> phase (loads demo_superseded ! 1) = AwaitDocument
   \<and> pageViews demo_superseded = [\<lparr>pageNumber = 1, el = 1\<rparr>, \<lparr>pageNumber = 2, el = 2\<rparr>]
   \<and> onReadyCalls demo_superseded = [2]
   \<and> containerChildren demo_superseded = [1, 2]
   \<and> error (run Sidebar_jsx [FileUrlChange ''b.pdf'', HeadResolved 0 False 404]
               (mount Sidebar_jsx ''a.pdf'' None False)) =
       Some ''PDF not found at a.pdf (status 404)''
   \<and> \<not> loading (run Sidebar_jsx [FileUrlChange ''b.pdf'', HeadResolved 0 False 404]
                   (mount Sidebar_jsx ''a.pdf'' None False))"
proof -
  have n: "show_nat 404 = ''404''"
    by (simp add: show_nat.simps digit_def)
  show ?thesis
    by (simp add: demo_superseded_def run_Cons run_Nil mount_def load_defs sync_defs Let_def n)
qed




section \<open>Recomputes that hold a superseded registry\<close>

text \<open>
  What does hold of every publication. Only a frame publishes; a frame in a reachable
  state publishes nothing, or exactly one list, which is the result of the mapper for
  the \<open>selectedChunk\<close> prop of that moment and the layout of that frame, against the
  \<open>pageViews\<close> that the queued callback holds: empty, or one rectangle with the id and
  the page of that chunk.
\<close>

lemma publication_from_current_selection:
  assumes reach: "s = run rv es (mount rv url sel ready)"
  shows "(\<not> is_Frame e \<longrightarrow> published (step rv e s) = published s)
       \<and> (published (step rv (Frame lay) s) = published s
          \<or> (\<exists>q rs. rafQueue s = [q]
                \<and> computeRectsFromChunk q (containerRef s) lay (selectedChunk s) = Inr rs
                \<and> published (step rv (Frame lay) s) = published s @ [(selectedChunk s, rs)]
                \<and> length rs \<le> 1 \<and> derived (selectedChunk s) rs))"
proof
  show "\<not> is_Frame e \<longrightarrow> published (step rv e s) = published s"
    using step_observations [of e rv s] by simp
next
  have inv: "sync_inv s"
    unfolding reach by (rule sync_inv_run) (rule sync_inv_mount)
  then have sel: "latestSelected s = selectedChunk s"
    by (simp add: sync_inv_def)
  show "published (step rv (Frame lay) s) = published s
          \<or> (\<exists>q rs. rafQueue s = [q]
                \<and> computeRectsFromChunk q (containerRef s) lay (selectedChunk s) = Inr rs
                \<and> published (step rv (Frame lay) s) = published s @ [(selectedChunk s, rs)]
                \<and> length rs \<le> 1 \<and> derived (selectedChunk s) rs)"
  proof (cases "rafPending s")
    case False
    with inv have "rafQueue s = []"
      by (simp add: sync_inv_def)
    then show ?thesis
      by (simp add: frame_def)
  next
    case True
    with inv obtain q where q: "rafQueue s = [q]"
      by (cases "rafQueue s") (auto simp: sync_inv_def)
    let ?t = "s\<lparr>rafQueue := []\<rparr>"
    have f: "step rv (Frame lay) s = rafCallback q lay ?t"
      using q by (simp add: frame_single)
    show ?thesis
    proof (cases "selectedChunk s")
      case None
      have "computeRectsFromChunk q (containerRef s) lay None = Inr []"
        by (simp add: computeRectsFromChunk_def)
      with rafCallback_None [of ?t q lay] None sel q show ?thesis
        unfolding f by auto
    next
      case (Some c)
      show ?thesis
      proof (cases "computeRectsFromChunk q (containerRef s) lay (Some c)")
        case (Inl err)
        with rafCallback_throws [of ?t c q lay err] Some sel show ?thesis
          unfolding f by simp
      next
        case (Inr rs)
        from computeRectsFromChunk_derived [OF Inr]
        have "derived (Some c) rs" "length rs \<le> 1"
          by simp_all
        with rafCallback_Some [of ?t c q lay rs] Inr Some sel q show ?thesis
          unfolding f by auto
      qed
    qed
  qed
qed

lemma stale_rects:
  "computeRectsFromChunk [] (Some 0) demo_layout (Some demo_chunk) = Inr []"
  "computeRectsFromChunk views_a (Some 0) demo_layout (Some demo_chunk) =
     Inr [\<lparr>h_id = ''c1'', h_left = 60, h_top = 160, h_width = 240, h_height = 320,
            h_page = 2\<rparr>]"
  "computeRectsFromChunk views_b (Some 0) detached_layout (Some demo_chunk) = Inr []"
  "computeRectsFromChunk views_a (Some 0) detached_layout (Some demo_chunk) =
     Inr [\<lparr>h_id = ''c1'', h_left = - 12, h_top = - 100, h_width = 2, h_height = 2,
            h_page = 2\<rparr>]"
  by (simp_all add: computeRectsFromChunk_def views_a_def views_b_def demo_layout_def
        detached_layout_def demo_chunk_def Let_def)

lemma demo_switched_eq:
  "demo_switched =
     \<lparr>fileUrl = ''b.pdf'', selectedChunk = Some demo_chunk, onReady = False,
      containerRef = Some 0, containerChildren = [3], nextEl = 4,
      pageViews = views_b, highlights = [], error = None, loading = False,
      rafPending = False, latestSelected = Some demo_chunk, mounted = True,
      rafQueue = [], timers = [views_a],
      loads = [\<lparr>loadUrl = ''a.pdf'', cancelled = True, phase = Finished\<rparr>,
               \<lparr>loadUrl = ''b.pdf'', cancelled = False, phase = Finished\<rparr>],
      published = [(Some demo_chunk, []),
                   (Some demo_chunk, [\<lparr>h_id = ''c1'', h_left = 60, h_top = 160, h_width = 240,
                                          h_height = 320, h_page = 2\<rparr>]),
                   (Some demo_chunk, [])],
      mapperCalls = 3, scrolls = [962], onReadyCalls = [],
      consoleErrors = [], consoleMessages = [], uncaught = []\<rparr>"
proof -
  let ?m = "mount PdfPane_jsx ''a.pdf'' (Some demo_chunk) False"
  let ?shown = "[\<lparr>h_id = ''c1'', h_left = 60, h_top = 160, h_width = 240, h_height = 320,
                   h_page = 2\<rparr>]"
  have f: "find (\<lambda>pv. pageNumber pv = 2) views_a = Some \<lparr>pageNumber = 2, el = 2\<rparr>"
    by (simp add: views_a_def)
  have a: "run PdfPane_jsx [DocResolved 0 2, PageRendered 0, PageRendered 0] ?m =
     \<lparr>fileUrl = ''a.pdf'', selectedChunk = Some demo_chunk, onReady = False,
      containerRef = Some 0, containerChildren = [1, 2], nextEl = 3,
      pageViews = views_a, highlights = [], error = None, loading = False,
      rafPending = True, latestSelected = Some demo_chunk, mounted = True,
      rafQueue = [[]], timers = [],
      loads = [\<lparr>loadUrl = ''a.pdf'', cancelled = False, phase = Finished\<rparr>],
      published = [], mapperCalls = 0, scrolls = [], onReadyCalls = [],
      consoleErrors = [], consoleMessages = [], uncaught = []\<rparr>" (is "_ = ?a")
    by (simp add: run_Cons run_Nil mount_def load_defs sync_defs Let_def views_a_def)
  have b: "run PdfPane_jsx [Frame demo_layout, Scroll, Frame demo_layout] ?a =
     \<lparr>fileUrl = ''a.pdf'', selectedChunk = Some demo_chunk, onReady = False,
      containerRef = Some 0, containerChildren = [1, 2], nextEl = 3,
      pageViews = views_a, highlights = ?shown, error = None, loading = False,
      rafPending = False, latestSelected = Some demo_chunk, mounted = True,
      rafQueue = [], timers = [],
      loads = [\<lparr>loadUrl = ''a.pdf'', cancelled = False, phase = Finished\<rparr>],
      published = [(Some demo_chunk, []), (Some demo_chunk, ?shown)],
      mapperCalls = 2, scrolls = [962], onReadyCalls = [],
      consoleErrors = [], consoleMessages = [], uncaught = []\<rparr>" (is "_ = ?b")
    by (simp add: run_Cons run_Nil sync_defs frame_def rafCallback_def setHighlights_def Let_def
          stale_rects f)
      (simp add: demo_layout_def)
  have c: "run PdfPane_jsx [FileUrlChange ''b.pdf'', DocResolved 1 1, Mutation, PageRendered 1] ?b =
     \<lparr>fileUrl = ''b.pdf'', selectedChunk = Some demo_chunk, onReady = False,
      containerRef = Some 0, containerChildren = [3], nextEl = 4,
      pageViews = views_b, highlights = ?shown, error = None, loading = False,
      rafPending = True, latestSelected = Some demo_chunk, mounted = True,
      rafQueue = [views_b], timers = [views_a],
      loads = [\<lparr>loadUrl = ''a.pdf'', cancelled = True, phase = Finished\<rparr>,
               \<lparr>loadUrl = ''b.pdf'', cancelled = False, phase = Finished\<rparr>],
      published = [(Some demo_chunk, []), (Some demo_chunk, ?shown)],
      mapperCalls = 2, scrolls = [962], onReadyCalls = [],
      consoleErrors = [], consoleMessages = [], uncaught = []\<rparr>" (is "_ = ?c")
    by (simp add: run_Cons run_Nil load_defs sync_defs Let_def views_b_def)
  have d: "run PdfPane_jsx [Frame detached_layout] ?c =
     \<lparr>fileUrl = ''b.pdf'', selectedChunk = Some demo_chunk, onReady = False,
      containerRef = Some 0, containerChildren = [3], nextEl = 4,
      pageViews = views_b, highlights = [], error = None, loading = False,
      rafPending = False, latestSelected = Some demo_chunk, mounted = True,
      rafQueue = [], timers = [views_a],
      loads = [\<lparr>loadUrl = ''a.pdf'', cancelled = True, phase = Finished\<rparr>,
               \<lparr>loadUrl = ''b.pdf'', cancelled = False, phase = Finished\<rparr>],
      published = [(Some demo_chunk, []), (Some demo_chunk, ?shown), (Some demo_chunk, [])],
      mapperCalls = 3, scrolls = [962], onReadyCalls = [],
      consoleErrors = [], consoleMessages = [], uncaught = []\<rparr>"
    by (simp add: run_Cons run_Nil frame_def rafCallback_def setHighlights_def Let_def stale_rects)
  have "demo_switched =
          run PdfPane_jsx [Frame detached_layout]
            (run PdfPane_jsx [FileUrlChange ''b.pdf'', DocResolved 1 1, Mutation, PageRendered 1]
               (run PdfPane_jsx [Frame demo_layout, Scroll, Frame demo_layout]
                  (run PdfPane_jsx [DocResolved 0 2, PageRendered 0, PageRendered 0] ?m)))"
    by (simp add: demo_switched_def run_def)
  then show ?thesis
    by (simp only: a b c d)
qed

lemma demo_stale_eq:
  "demo_stale =
     \<lparr>fileUrl = ''b.pdf'', selectedChunk = Some demo_chunk, onReady = False,
      containerRef = Some 0, containerChildren = [3], nextEl = 4,
      pageViews = views_b,
      highlights = [\<lparr>h_id = ''c1'', h_left = - 12, h_top = - 100, h_width = 2, h_height = 2,
                      h_page = 2\<rparr>],
      error = None, loading = False,
      rafPending = False, latestSelected = Some demo_chunk, mounted = True,
      rafQueue = [], timers = [],
      loads = [\<lparr>loadUrl = ''a.pdf'', cancelled = True, phase = Finished\<rparr>,
               \<lparr>loadUrl = ''b.pdf'', cancelled = False, phase = Finished\<rparr>],
      published = [(Some demo_chunk, []),
                   (Some demo_chunk, [\<lparr>h_id = ''c1'', h_left = 60, h_top = 160, h_width = 240,
                                          h_height = 320, h_page = 2\<rparr>]),
                   (Some demo_chunk, []),
                   (Some demo_chunk,
                    [\<lparr>h_id = ''c1'', h_left = - 12, h_top = - 100, h_width = 2, h_height = 2,
                       h_page = 2\<rparr>])],
      mapperCalls = 4, scrolls = [962, 0], onReadyCalls = [],
      consoleErrors = [], consoleMessages = [], uncaught = []\<rparr>"
proof -
  have f: "find (\<lambda>pv. pageNumber pv = 2) views_a = Some \<lparr>pageNumber = 2, el = 2\<rparr>"
    by (simp add: views_a_def)
  show ?thesis
    by (simp add: demo_stale_def demo_switched_eq run_Cons run_Nil sync_defs frame_def
          rafCallback_def setHighlights_def Let_def stale_rects f)
      (simp add: detached_layout_def)
qed

text \<open>
  Claim C9 asks that every published value is empty or one rectangle derived from the
  current selection, never a stale rectangle. The selection is read through the holder
  \<open>latestSelected\<close> when the callback runs, but \<open>pageViews\<close> is the one of the closure
  that was scheduled. After \<open>a.pdf\<close> has been replaced by \<open>b.pdf\<close> (one page, so that the
  mapper on the current \<open>pageViews\<close> gives the empty list for the chunk on page 2, and
  the recompute after the load has published it), the 50 ms timer set by the
  \<open>MutationObserver\<close> during the load still holds the \<open>scheduleRecompute\<close> of \<open>a.pdf\<close>:
  its frame publishes a rectangle for page 2, computed from the detached wrapper of
  \<open>a.pdf\<close>, and scrolls.
\<close>

theorem stale_registry_rectangle_published:
  "pageViews demo_switched = [\<lparr>pageNumber = 1, el = 3\<rparr>]
   \<and> highlights demo_switched = []
   \<and> timers demo_switched = [[\<lparr>pageNumber = 1, el = 1\<rparr>, \<lparr>pageNumber = 2, el = 2\<rparr>]]
   \<and> selectedChunk demo_stale = Some demo_chunk
   \<and> pageViews demo_stale = [\<lparr>pageNumber = 1, el = 3\<rparr>]
   \<and> containerChildren demo_stale = [3]
   \<and> computeRectsFromChunk (pageViews demo_stale) (containerRef demo_stale) detached_layout
         (selectedChunk demo_stale) = Inr []
   \<and> highlights demo_stale =
       [\<lparr>h_id = ''c1'', h_left = - 12, h_top = - 100, h_width = 2, h_height = 2, h_page = 2\<rparr>]
   \<and> published demo_stale = published demo_switched @
       [(Some demo_chunk,
         [\<lparr>h_id = ''c1'', h_left = - 12, h_top = - 100, h_width = 2, h_height = 2,
            h_page = 2\<rparr>])]
   \<and> scrolls demo_stale = scrolls demo_switched @ [0]"
  by (simp add: demo_switched_eq demo_stale_eq stale_rects)
    (simp add: views_a_def views_b_def)

end
